theory Spec2Isabelle
  imports Complex_Main
begin

section \<open>Numbers, vectors and thrown errors\<close>

text \<open>
  JavaScript numbers are modelled as exact reals: rounding of doubles and of the
  32-bit floats stored in typed arrays is not represented. A \<open>Float32Array\<close> is a list
  of its declared length (a write outside it is ignored, as \<open>list_update\<close> does) or,
  for the 6000-entry shockwave buffers, a function from the index.
  A thrown exception is a value that carries the state as it was when the throw happened,
  because the module-level and closure variables keep every mutation made before it.
\<close>

type_synonym vec3 = "real \<times> real \<times> real"

datatype error = TypeError

type_synonym 's outcome = "(error \<times> 's) + 's"

definition stateOf :: "'s outcome \<Rightarrow> 's" where
  "stateOf r = (case r of Inl (e, s) \<Rightarrow> s | Inr s \<Rightarrow> s)"

definition returned :: "'s outcome \<Rightarrow> bool" where
  "returned r = (case r of Inl _ \<Rightarrow> False | Inr _ \<Rightarrow> True)"

definition randFloat :: "real \<Rightarrow> real \<Rightarrow> real \<Rightarrow> real" where
  \<comment> \<open>\<open>THREE.MathUtils.randFloat(low, high)\<close>, given the value \<open>u\<close> of \<open>Math.random()\<close>\<close>
  "randFloat low high u = low + u * (high - low)"

definition mapLinear :: "real \<Rightarrow> real \<Rightarrow> real \<Rightarrow> real \<Rightarrow> real \<Rightarrow> real" where
  \<comment> \<open>\<open>THREE.MathUtils.mapLinear(x, a1, a2, b1, b2)\<close>\<close>
  "mapLinear x a1 a2 b1 b2 = b1 + (x - a1) * (b2 - b1) / (a2 - a1)"

definition lerpVectors :: "vec3 \<Rightarrow> vec3 \<Rightarrow> real \<Rightarrow> vec3" where
  \<comment> \<open>\<open>new THREE.Vector3().lerpVectors(v1, v2, alpha)\<close>\<close>
  "lerpVectors v1 v2 a =
     (case v1 of (x1, y1, z1) \<Rightarrow> case v2 of (x2, y2, z2) \<Rightarrow>
        (x1 + (x2 - x1) * a, y1 + (y2 - y1) * a, z1 + (z2 - z1) * a))"


section \<open>Shooting stars (\<open>createShootingStars\<close>)\<close>

definition count :: nat where
  "count = 20"

definition activeMax :: nat where
  "activeMax = 3"

record ShootingStar =
  index :: nat
  startPosition :: vec3
  endPosition :: vec3
  progress :: real
  speed :: real
  starSize :: real
  maxAlpha :: real

text \<open>The variables the closure of \<open>createShootingStars\<close> keeps between calls.\<close>

record ShootingStars =
  positions :: "real list"
  sizes :: "real list"
  alphas :: "real list"
  activeShootingStars :: "ShootingStar list"
  lastCheck :: int

definition createShootingStars :: ShootingStars where
  "createShootingStars =
     \<lparr> positions = replicate (count * 3) 0,
       sizes = replicate count 0,
       alphas = replicate count 0,
       activeShootingStars = [],
       lastCheck = 0 \<rparr>"

text \<open>
  The eight values of \<open>Math.random()\<close> that one call of \<open>createNewShootingStar\<close>
  consumes, in the order of the calls.
\<close>

record SpawnDraws =
  uPhi :: real
  uTheta :: real
  uRadius :: real
  uEndPhi :: real
  uEndTheta :: real
  uSpeed :: real
  uSize :: real
  uMaxAlpha :: real

text \<open>
  The slot search reads \<open>alphas.array[i]\<close>. There \<open>alphas\<close> is the \<open>Float32Array\<close>
  itself, which has no property \<open>array\<close>: \<open>alphas.array\<close> is \<open>undefined\<close> and
  indexing it throws a \<open>TypeError\<close>, whatever the index.
\<close>

definition alphas_array :: "real list \<Rightarrow> nat \<Rightarrow> error + real" where
  "alphas_array as i = Inl TypeError"

function findSlot :: "real list \<Rightarrow> nat \<Rightarrow> error + nat option" where
  "findSlot as i =
     (if i < count then
        (case alphas_array as i of
           Inl e \<Rightarrow> Inl e
         | Inr a \<Rightarrow> if a \<le> 0 then Inr (Some i) else findSlot as (i + 1))
      else Inr None)"
  by pat_completeness auto
termination
  by (relation "measure (\<lambda>(as, i). count - i)") auto

declare findSlot.simps [simp del]

definition activate :: "SpawnDraws \<Rightarrow> nat \<Rightarrow> ShootingStars \<Rightarrow> ShootingStars" where
  "activate d slot s =
     (let phi = randFloat 0 (pi * 0.4) (uPhi d);
          theta = randFloat 0 (pi * 2) (uTheta d);
          radius = randFloat 300 600 (uRadius d);
          startX = radius * sin phi * cos theta;
          startY = radius * cos phi;
          startZ = radius * sin phi * sin theta;
          endPhi = phi + randFloat 0.3 0.6 (uEndPhi d);
          endTheta = theta + randFloat (- 0.1) 0.1 (uEndTheta d);
          endX = radius * sin endPhi * cos endTheta;
          endY = radius * cos endPhi;
          endZ = radius * sin endPhi * sin endTheta;
          shootingStar =
            \<lparr> index = slot,
              startPosition = (startX, startY, startZ),
              endPosition = (endX, endY, endZ),
              progress = 0,
              speed = randFloat 0.5 2.0 (uSpeed d),
              starSize = randFloat 6 10 (uSize d),
              maxAlpha = randFloat 0.7 1.0 (uMaxAlpha d) \<rparr>
      in s\<lparr> positions := (positions s)[slot * 3 := startX, slot * 3 + 1 := startY,
                                         slot * 3 + 2 := startZ],
            sizes := (sizes s)[slot := starSize shootingStar],
            alphas := (alphas s)[slot := 0.1],
            activeShootingStars := activeShootingStars s @ [shootingStar] \<rparr>)"

definition createNewShootingStar :: "SpawnDraws \<Rightarrow> ShootingStars \<Rightarrow> ShootingStars outcome" where
  "createNewShootingStar d s =
     (if length (activeShootingStars s) \<ge> activeMax then Inr s
      else
        (case findSlot (alphas s) 0 of
           Inl e \<Rightarrow> Inl (e, s)
         | Inr None \<Rightarrow> Inr s
         | Inr (Some slot) \<Rightarrow> Inr (activate d slot s)))"

definition newAlpha :: "real \<Rightarrow> real \<Rightarrow> real" where
  "newAlpha p A =
     (if p < 0.2 then mapLinear p 0 0.2 0 A
      else if p < 0.8 then A
      else if p < 1 then mapLinear p 0.8 1 A 0
      else 0)"

definition advance :: "real \<Rightarrow> ShootingStar \<Rightarrow> ShootingStar" where
  \<comment> \<open>\<open>star.progress += deltaTime * star.speed * 0.1\<close>\<close>
  "advance deltaTime star = star\<lparr>progress := progress star + deltaTime * speed star * 0.1\<rparr>"

text \<open>
  One pass of the loop body of \<open>updateShootingStars\<close> for the star at the current
  position: the buffers after it, and the star when it stays in the list.
\<close>

definition stepStar ::
  "real \<Rightarrow> ShootingStar \<Rightarrow> real list \<times> real list \<Rightarrow> ShootingStar option \<times> real list \<times> real list"
where
  "stepStar deltaTime star0 buf =
     (let star = advance deltaTime star0;
          pos = lerpVectors (startPosition star) (endPosition star) (progress star);
          idx = index star;
          ps = (fst buf)[idx * 3 := fst pos, idx * 3 + 1 := fst (snd pos),
                         idx * 3 + 2 := snd (snd pos)];
          as = (snd buf)[idx := newAlpha (progress star) (maxAlpha star)]
      in if progress star \<ge> 1.0 then (None, ps, as[idx := 0])
         else (Some star, ps, as))"

text \<open>
  The loop runs from the last star to the first and removes the current one with
  \<open>splice(i, 1)\<close>, which leaves the stars before it in place: the tail is processed
  before the head.
\<close>

fun updateLoop ::
  "real \<Rightarrow> ShootingStar list \<Rightarrow> real list \<times> real list \<Rightarrow> ShootingStar list \<times> real list \<times> real list"
where
  "updateLoop deltaTime [] buf = ([], buf)"
| "updateLoop deltaTime (star # later) buf =
     (case updateLoop deltaTime later buf of
        (later', buf') \<Rightarrow>
          (case stepStar deltaTime star buf' of
             (None, buf'') \<Rightarrow> (later', buf'')
           | (Some star', buf'') \<Rightarrow> (star' # later', buf'')))"

definition updateShootingStars :: "real \<Rightarrow> ShootingStars \<Rightarrow> ShootingStars" where
  "updateShootingStars deltaTime s =
     (case updateLoop deltaTime (activeShootingStars s) (positions s, alphas s) of
        (stars, ps, as) \<Rightarrow> s\<lparr>positions := ps, alphas := as, activeShootingStars := stars\<rparr>)"

text \<open>
  \<open>shootingStars.userData.update(deltaTime)\<close>: \<open>now\<close> is the value of \<open>Date.now()\<close>
  (milliseconds, not negative), \<open>u\<close> the value of \<open>Math.random()\<close> compared with 0.4.
\<close>

definition userData_update ::
  "nat \<Rightarrow> real \<Rightarrow> SpawnDraws \<Rightarrow> real \<Rightarrow> ShootingStars \<Rightarrow> ShootingStars outcome"
where
  "userData_update now u d deltaTime s =
     (let s1 = updateShootingStars deltaTime s
      in if int now - lastCheck s1 > 3000 then
           (let s2 = s1\<lparr>lastCheck := int now\<rparr>
            in if u < 0.4 then createNewShootingStar d s2 else Inr s2)
         else Inr s1)"

text \<open>
  The states of the shooting-star system that a session can reach: the one
  \<open>createShootingStars\<close> builds, and the one each call of the per-frame update leaves,
  whether it returned or threw.
\<close>

inductive reachableStars :: "ShootingStars \<Rightarrow> bool" where
  init: "reachableStars createShootingStars"
| frame: "reachableStars s \<Longrightarrow> reachableStars (stateOf (userData_update now u d deltaTime s))"


section \<open>Camera path (\<open>cameraPath.js\<close>)\<close>

text \<open>
  \<open>THREE.CatmullRomCurve3\<close> belongs to the rendering library, not to this repository.
  The model takes it as a parameter: \<open>lib ps\<close> is the function \<open>getPointAt\<close> of the
  closed centripetal curve that the library builds through the points \<open>ps\<close>.
\<close>

type_synonym CatmullRomCurve3 = "vec3 list \<Rightarrow> real \<Rightarrow> vec3"

record CameraPath =
  points :: "vec3 list"
  curve :: "(real \<Rightarrow> vec3) option"

definition newCameraPath :: CameraPath where
  "newCameraPath = \<lparr> points = [], curve = None \<rparr>"

definition updateCurve :: "CatmullRomCurve3 \<Rightarrow> CameraPath \<Rightarrow> CameraPath" where
  "updateCurve lib cp =
     (if length (points cp) < 2 then cp\<lparr>curve := None\<rparr>
      else cp\<lparr>curve := Some (lib (points cp))\<rparr>)"

definition addPoint :: "CatmullRomCurve3 \<Rightarrow> vec3 \<Rightarrow> CameraPath \<Rightarrow> CameraPath" where
  "addPoint lib point cp = updateCurve lib (cp\<lparr>points := points cp @ [point]\<rparr>)"

definition getPointAt :: "CameraPath \<Rightarrow> real \<Rightarrow> vec3" where
  "getPointAt cp t =
     (case curve cp of
        None \<Rightarrow> (0, 0, 0)
      | Some c \<Rightarrow> if length (points cp) < 2 then (0, 0, 0) else c t)"

text \<open>The path after \<open>addPoint\<close> was called with each of \<open>ps\<close> in turn.\<close>

definition pathThrough :: "CatmullRomCurve3 \<Rightarrow> vec3 list \<Rightarrow> CameraPath" where
  "pathThrough lib ps = fold (addPoint lib) ps newCameraPath"

definition setupCameraPath :: "CatmullRomCurve3 \<Rightarrow> CameraPath" where
  "setupCameraPath lib =
     pathThrough lib
       [(0, 20, 100), (30, 40, 80), (60, 10, 40), (70, - 10, 0), (40, - 30, - 30),
        (- 20, - 20, - 60), (- 60, 0, - 80), (- 100, 30, - 50), (- 80, 50, 10),
        (- 30, 40, 60), (20, 20, 80)]"

text \<open>The remainder operator \<open>%\<close> of JavaScript on numbers: the quotient is truncated.\<close>

definition jsRem :: "real \<Rightarrow> real \<Rightarrow> real" where
  "jsRem a b =
     a - b * of_int (if 0 \<le> a / b then \<lfloor>a / b\<rfloor> else \<lceil>a / b\<rceil>)"


section \<open>The session (\<open>main.js\<close>)\<close>

text \<open>
  Objects of the scene graph are told apart by a number given at creation. Of an object
  the model keeps what the animation loop reads or writes; captions, timers, audio, the
  camera roll and the render call leave the state below as it is and are left out.
\<close>

definition particleCount :: nat where
  "particleCount = 2000"

record Shockwave =
  particles :: nat
  swPositions :: "nat \<Rightarrow> real"
  velocity :: "nat \<Rightarrow> real"
  swStartTime :: real
  swDuration :: real
  swTime :: real

record DramaticEvent =
  supernova :: nat
  supernovaLight :: nat
  startTime :: real
  duration :: real
  supernovaScale :: real
  supernovaTime :: real
  intensity :: real

record Session =
  starfieldObjects :: ShootingStars
  updateableObjects :: "Shockwave list"
  children :: "nat set"
  nextObject :: nat
  dramaticEventTriggered :: bool
  dramaticEventProgress :: real
  dramaticEvent :: "DramaticEvent option"
  journeyStarted :: bool
  isAutoPilot :: bool
  controlsEnabled :: bool
  cameraPath :: CameraPath
  cameraPosition :: vec3
  cameraTarget :: vec3

text \<open>
  The values of \<open>Math.random()\<close> that \<open>createShockwave\<close> draws for particle \<open>i\<close>
  and that its update reads later (direction and speed).
\<close>

record ShockDraws =
  vPhi :: "nat \<Rightarrow> real"
  vTheta :: "nat \<Rightarrow> real"
  vSpeed :: "nat \<Rightarrow> real"

text \<open>What one call of \<open>animate\<close> reads from the clock, the random source and the controls.\<close>

record Frame =
  delta :: real
  elapsedTime :: real
  nowStars :: nat
  uSpawn :: real
  spawnDraws :: SpawnDraws
  nowPath :: nat
  uEvent :: real
  eventClock :: real
  shockwaveClock :: real
  shockDraws :: ShockDraws
  orbit :: "vec3 \<times> vec3 \<Rightarrow> vec3 \<times> vec3"

definition init :: "CatmullRomCurve3 \<Rightarrow> Session" where
  "init lib =
     \<lparr> starfieldObjects = createShootingStars,
       updateableObjects = [],
       children = {},
       nextObject = 0,
       dramaticEventTriggered = False,
       dramaticEventProgress = 0,
       dramaticEvent = None,
       journeyStarted = False,
       isAutoPilot = True,
       controlsEnabled = False,
       cameraPath = setupCameraPath lib,
       cameraPosition = (0, 0, 50),
       cameraTarget = (0, 0, 0) \<rparr>"

definition startJourney :: "Session \<Rightarrow> Session" where
  "startJourney s = (if journeyStarted s then s else s\<lparr>journeyStarted := True\<rparr>)"



definition createShockwave :: "ShockDraws \<Rightarrow> real \<Rightarrow> vec3 \<Rightarrow> real \<Rightarrow> Session \<Rightarrow> Session" where
  "createShockwave d clockNow center dur s =
     (let phi = (\<lambda>i. arccos (vPhi d i * 2 - 1));
          theta = (\<lambda>i. vTheta d i * pi * 2);
          radius = 5;
          dir = (\<lambda>k. if k mod 3 = 0 then sin (phi (k div 3)) * cos (theta (k div 3))
                      else if k mod 3 = 1 then sin (phi (k div 3)) * sin (theta (k div 3))
                      else cos (phi (k div 3)));
          c = (\<lambda>k. if k mod 3 = 0 then fst center
                    else if k mod 3 = 1 then fst (snd center)
                    else snd (snd center));
          w = \<lparr> particles = nextObject s,
                swPositions = (\<lambda>k. if k < particleCount * 3 then c k + radius * dir k else 0),
                velocity = (\<lambda>k. if k < particleCount * 3
                                   then dir k * (2 + vSpeed d (k div 3) * 5) else 0),
                swStartTime = clockNow,
                swDuration = dur,
                swTime = 0 \<rparr>
      in s\<lparr> children := insert (particles w) (children s),
            nextObject := nextObject s + 1,
            updateableObjects := updateableObjects s @ [w] \<rparr>)"

definition triggerDramaticEvent :: "Frame \<Rightarrow> Session \<Rightarrow> Session" where
  "triggerDramaticEvent f s =
     (if dramaticEventTriggered s then s
      else
        (let event =
               \<lparr> supernova = nextObject s,
                 supernovaLight = nextObject s + 1,
                 startTime = eventClock f,
                 duration = 25,
                 supernovaScale = 1,
                 supernovaTime = 0,
                 intensity = 1 \<rparr>;
             s1 = s\<lparr> dramaticEventTriggered := True,
                      dramaticEventProgress := 0,
                      children := insert (supernovaLight event)
                                    (insert (supernova event) (children s)),
                      nextObject := nextObject s + 2,
                      dramaticEvent := Some event \<rparr>
         in createShockwave (shockDraws f) (shockwaveClock f) (- 150, 40, - 120) 25 s1))"

text \<open>\<open>particles.userData.update(elapsedTime)\<close> of one shockwave.\<close>

definition shockwaveUpdate :: "real \<Rightarrow> Shockwave \<Rightarrow> nat set \<Rightarrow> Shockwave \<times> nat set" where
  "shockwaveUpdate elapsed w ch =
     (let runtime = elapsed - swStartTime w;
          progress = min (runtime / swDuration w) 1.0;
          w1 = w\<lparr>swTime := runtime\<rparr>
      in if progress < 1.0 then
           (w1\<lparr>swPositions :=
                 (\<lambda>k. if k < particleCount * 3
                       then swPositions w k + velocity w k * (1.0 - progress * 0.5)
                       else swPositions w k)\<rparr>, ch)
         else (w1, ch - {particles w}))"

text \<open>The loop over \<open>scene.userData.updateableObjects\<close>, from the last object to the first.\<close>

fun updateObjects :: "real \<Rightarrow> Shockwave list \<Rightarrow> nat set \<Rightarrow> Shockwave list \<times> nat set" where
  "updateObjects elapsed [] ch = ([], ch)"
| "updateObjects elapsed (w # later) ch =
     (case updateObjects elapsed later ch of
        (later', ch') \<Rightarrow>
          (case shockwaveUpdate elapsed w ch' of (w', ch'') \<Rightarrow> (w' # later', ch'')))"

text \<open>The block of \<open>animate\<close> under "Update dramatic event if in progress".\<close>

definition updateDramaticEvent :: "real \<Rightarrow> Session \<Rightarrow> Session" where
  "updateDramaticEvent elapsed s =
     (case dramaticEvent s of
        None \<Rightarrow> s
      | Some event \<Rightarrow>
          if \<not> dramaticEventTriggered s then s
          else
            (let eventElapsed = elapsed - startTime event;
                 progress = min (eventElapsed / duration event) 1.0;
                 event1 =
                   (if progress < 0.3 then
                      event\<lparr> supernovaScale := 1 + progress * 100,
                             supernovaTime := elapsed,
                             intensity := progress * 10 \<rparr>
                    else if progress < 0.7 then
                      event\<lparr> supernovaTime := elapsed,
                             intensity := 3 + sin (elapsed * 3) * 1.5 \<rparr>
                    else
                      (let fadeOut = 1 - ((progress - 0.7) / 0.3)
                       in event\<lparr> supernovaScale := 30 * fadeOut,
                                 supernovaTime := elapsed,
                                 intensity := fadeOut * 3 \<rparr>))
             in if progress \<ge> 1.0 then
                  s\<lparr> children := children s - {supernova event} - {supernovaLight event},
                     dramaticEventTriggered := False,
                     dramaticEvent := None \<rparr>
                else s\<lparr>dramaticEvent := Some event1\<rparr>))"

text \<open>
  The first three blocks of \<open>animate\<close>: shooting stars, the updateable objects, the
  dramatic event. A throw of the shooting-star update ends the frame there.
\<close>

definition advanceAnimations :: "Frame \<Rightarrow> Session \<Rightarrow> Session outcome" where
  "advanceAnimations f s =
     (case userData_update (nowStars f) (uSpawn f) (spawnDraws f) (delta f) (starfieldObjects s) of
        Inl (e, st) \<Rightarrow> Inl (e, s\<lparr>starfieldObjects := st\<rparr>)
      | Inr st \<Rightarrow>
          (let s1 = s\<lparr>starfieldObjects := st\<rparr>;
               s2 = (case updateObjects (elapsedTime f) (updateableObjects s1) (children s1) of
                       (ws, ch) \<Rightarrow> s1\<lparr>updateableObjects := ws, children := ch\<rparr>)
           in Inr (updateDramaticEvent (elapsedTime f) s2)))"

text \<open>The last block of \<open>animate\<close>: the camera, and the trigger of the dramatic event.\<close>

definition driveCamera :: "Frame \<Rightarrow> Session \<Rightarrow> Session" where
  "driveCamera f s =
     (if journeyStarted s \<and> isAutoPilot s then
        (let pathPosition = real (nowPath f mod 300000) / 300000;
             position = getPointAt (cameraPath s) pathPosition;
             lookAheadAmount = 0.01 + sin (elapsedTime f * 0.2) * 0.005;
             lookAtPosition = getPointAt (cameraPath s) (jsRem (pathPosition + lookAheadAmount) 1);
             s1 = s\<lparr>cameraPosition := position, cameraTarget := lookAtPosition\<rparr>
         in if \<not> dramaticEventTriggered s1 \<and> elapsedTime f > 60 \<and> uEvent f < 0.001
            then triggerDramaticEvent f s1 else s1)
      else if \<not> isAutoPilot s then
        (case orbit f (cameraPosition s, cameraTarget s) of
           (p, t) \<Rightarrow> s\<lparr>cameraPosition := p, cameraTarget := t\<rparr>)
      else s)"

definition animate :: "Frame \<Rightarrow> Session \<Rightarrow> Session outcome" where
  "animate f s =
     (case advanceAnimations f s of
        Inl (e, s') \<Rightarrow> Inl (e, s')
      | Inr s' \<Rightarrow> Inr (driveCamera f s'))"


text \<open>The state after the frames of a list, one call of \<open>animate\<close> each.\<close>

definition run :: "Frame list \<Rightarrow> Session \<Rightarrow> Session" where
  "run fs s = fold (\<lambda>f s. stateOf (animate f s)) fs s"

section \<open>Example states\<close>

text \<open>
  Concrete inputs for the instances below. \<open>exampleCurve\<close> stands for a library
  curve: the straight line from the first point to the last.
\<close>

definition exampleStar :: ShootingStar where
  "exampleStar =
     \<lparr> index = 0, startPosition = (0, 300, 0), endPosition = (100, 200, 0),
       progress = 0.1, speed = 1, starSize = 8, maxAlpha = 0.8 \<rparr>"

definition exampleThree :: "ShootingStar list" where
  "exampleThree = [exampleStar, exampleStar\<lparr>index := 1\<rparr>, exampleStar\<lparr>index := 2\<rparr>]"

definition exampleStars :: "ShootingStar list \<Rightarrow> ShootingStars" where
  "exampleStars stars = createShootingStars\<lparr>activeShootingStars := stars\<rparr>"

definition exampleDraws :: SpawnDraws where
  "exampleDraws =
     \<lparr> uPhi = 0, uTheta = 0, uRadius = 0, uEndPhi = 0, uEndTheta = 0, uSpeed = 0,
       uSize = 0, uMaxAlpha = 0 \<rparr>"

definition exampleCurve :: CatmullRomCurve3 where
  "exampleCurve ps t = (case ps of [] \<Rightarrow> (0, 0, 0) | p # _ \<Rightarrow> lerpVectors p (last ps) t)"

definition exampleShockDraws :: ShockDraws where
  "exampleShockDraws = \<lparr> vPhi = (\<lambda>i. 1 / 2), vTheta = (\<lambda>i. 0), vSpeed = (\<lambda>i. 0) \<rparr>"

definition frameAt :: "nat \<Rightarrow> real \<Rightarrow> real \<Rightarrow> Frame" where
  "frameAt now t u =
     \<lparr> delta = 1 / 60, elapsedTime = t, nowStars = now, uSpawn = 0.9,
       spawnDraws = exampleDraws, nowPath = now, uEvent = u, eventClock = t,
       shockwaveClock = t, shockDraws = exampleShockDraws, orbit = (\<lambda>c. c) \<rparr>"

definition exampleJourney :: Session where
  "exampleJourney = startJourney (init exampleCurve)"

definition exampleEvent :: DramaticEvent where
  "exampleEvent =
     \<lparr> supernova = 0, supernovaLight = 1, startTime = 61, duration = 25,
       supernovaScale = 1, supernovaTime = 0, intensity = 1 \<rparr>"

definition exampleTriggered :: Session where
  "exampleTriggered = triggerDramaticEvent (frameAt 1700000061000 61 0) exampleJourney"

definition frame1 :: Frame where
  "frame1 = frameAt 1700000061000 61 0"

definition frame2 :: Frame where
  "frame2 = frameAt 1700000086000 86 (1 / 2)"

definition frame3 :: Frame where
  "frame3 = frameAt 1700000087000 87 0"

section \<open>Shooting stars: the per-frame update\<close>


lemma newAlpha_done: "1 \<le> p \<Longrightarrow> newAlpha p A = 0"
  by (simp add: newAlpha_def)

lemma stepStar_fst:
  "fst (stepStar dt st buf) =
     (if 1 \<le> progress (advance dt st) then None else Some (advance dt st))"
  by (simp add: stepStar_def Let_def)

lemma stepStar_alphas:
  "snd (snd (stepStar dt st buf)) =
     (snd buf)[index st := newAlpha (progress (advance dt st)) (maxAlpha st)]"
  by (simp add: stepStar_def Let_def advance_def newAlpha_done)

lemma updateLoop_stars:
  "fst (updateLoop dt stars buf) = filter (\<lambda>st. progress st < 1) (map (advance dt) stars)"
proof (induction stars)
  case Nil
  show ?case by simp
next
  case (Cons st later)
  obtain later' buf' where L: "updateLoop dt later buf = (later', buf')"
    by (cases "updateLoop dt later buf")
  obtain r buf'' where S: "stepStar dt st buf' = (r, buf'')"
    by (cases "stepStar dt st buf'")
  have r: "r = (if 1 \<le> progress (advance dt st) then None else Some (advance dt st))"
    using stepStar_fst [of dt st buf'] S by simp
  from Cons.IH L have "later' = filter (\<lambda>st. progress st < 1) (map (advance dt) later)"
    by simp
  with L S r show ?case by (simp add: not_le)
qed

lemma updateLoop_alphas:
  "snd (snd (updateLoop dt (st # later) buf)) =
     (snd (snd (updateLoop dt later buf)))
       [index st := newAlpha (progress (advance dt st)) (maxAlpha st)]"
proof -
  obtain later' buf' where L: "updateLoop dt later buf = (later', buf')"
    by (cases "updateLoop dt later buf")
  obtain r buf'' where S: "stepStar dt st buf' = (r, buf'')"
    by (cases "stepStar dt st buf'")
  have "snd buf'' = (snd buf')[index st := newAlpha (progress (advance dt st)) (maxAlpha st)]"
    using stepStar_alphas [of dt st buf'] S by simp
  with L S show ?thesis by (cases r) simp_all
qed

lemma updateLoop_alphas_length:
  "length (snd (snd (updateLoop dt stars buf))) = length (snd buf)"
proof (induction stars)
  case Nil
  show ?case by simp
next
  case (Cons st later)
  then show ?case by (simp only: updateLoop_alphas length_list_update)
qed

lemma updateLoop_alphas_other:
  "i \<notin> index ` set stars \<Longrightarrow> snd (snd (updateLoop dt stars buf)) ! i = snd buf ! i"
proof (induction stars)
  case Nil
  show ?case by simp
next
  case (Cons st later)
  then have "index st \<noteq> i" and "i \<notin> index ` set later" by auto
  with Cons.IH show ?case by (simp add: updateLoop_alphas del: updateLoop.simps)
qed

lemma updateLoop_alphas_star:
  "distinct (map index stars) \<Longrightarrow> st \<in> set stars \<Longrightarrow> index st < length (snd buf) \<Longrightarrow>
     snd (snd (updateLoop dt stars buf)) ! index st
       = newAlpha (progress (advance dt st)) (maxAlpha st)"
proof (induction stars)
  case Nil
  then show ?case by simp
next
  case (Cons hd later)
  show ?case
  proof (cases "st = hd")
    case True
    with Cons.prems(3) show ?thesis
      by (simp only: updateLoop_alphas nth_list_update_eq updateLoop_alphas_length)
  next
    case False
    with Cons.prems have mem: "st \<in> set later" and ne: "index hd \<noteq> index st"
      and d: "distinct (map index later)" by auto
    from Cons.IH [OF d mem Cons.prems(3)] ne show ?thesis
      by (simp add: updateLoop_alphas del: updateLoop.simps)
  qed
qed

lemma updateShootingStars_active:
  "activeShootingStars (updateShootingStars dt s)
     = filter (\<lambda>st. progress st < 1) (map (advance dt) (activeShootingStars s))"
  using updateLoop_stars [of dt "activeShootingStars s" "(positions s, alphas s)"]
  by (cases "updateLoop dt (activeShootingStars s) (positions s, alphas s)")
     (simp add: updateShootingStars_def)

lemma updateShootingStars_alphas:
  "alphas (updateShootingStars dt s)
     = snd (snd (updateLoop dt (activeShootingStars s) (positions s, alphas s)))"
  by (cases "updateLoop dt (activeShootingStars s) (positions s, alphas s)")
     (simp add: updateShootingStars_def)

lemma updateShootingStars_lastCheck:
  "lastCheck (updateShootingStars dt s) = lastCheck s"
  by (cases "updateLoop dt (activeShootingStars s) (positions s, alphas s)")
     (simp add: updateShootingStars_def)


lemma findSlot_throws: "findSlot as 0 = Inl TypeError"
  by (subst findSlot.simps) (simp add: count_def alphas_array_def)

lemma spawn_throws:
  "length (activeShootingStars s) < activeMax \<Longrightarrow> createNewShootingStar d s = Inl (TypeError, s)"
  by (simp add: createNewShootingStar_def findSlot_throws)

text \<open>What the activation block of \<open>createNewShootingStar\<close> would write, were it reached.\<close>

lemma activate_alpha:
  "slot < length (alphas s) \<Longrightarrow>
     alphas (activate d slot s) ! slot = 0.1
   \<and> progress (last (activeShootingStars (activate d slot s))) = 0"
  by (simp add: activate_def Let_def)

lemma createNewShootingStar_inv:
  assumes "length (activeShootingStars s) \<le> activeMax" and "length (alphas s) = n"
  shows "length (activeShootingStars (stateOf (createNewShootingStar d s))) \<le> activeMax
    \<and> length (alphas (stateOf (createNewShootingStar d s))) = n"
  using assms
  by (auto simp: createNewShootingStar_def stateOf_def activate_def Let_def
           split: sum.splits option.splits)

lemma userData_update_inv:
  assumes "length (activeShootingStars s) \<le> activeMax" and "length (alphas s) = n"
  shows "length (activeShootingStars (stateOf (userData_update now u d dt s))) \<le> activeMax
    \<and> length (alphas (stateOf (userData_update now u d dt s))) = n"
proof -
  let ?s1 = "updateShootingStars dt s"
  have "length (activeShootingStars ?s1) \<le> length (activeShootingStars s)"
    by (simp add: updateShootingStars_active)
  with assms(1) have a1: "length (activeShootingStars ?s1) \<le> activeMax" by simp
  have l1: "length (alphas ?s1) = n"
    using assms(2) by (simp add: updateShootingStars_alphas updateLoop_alphas_length)
  let ?s2 = "?s1\<lparr>lastCheck := int now\<rparr>"
  have a2: "length (activeShootingStars ?s2) \<le> activeMax" and l2: "length (alphas ?s2) = n"
    using a1 l1 by simp_all
  show ?thesis
    using a1 l1 createNewShootingStar_inv [OF a2 l2, of d]
    by (simp add: userData_update_def Let_def stateOf_def)
qed

lemma reachableStars_inv:
  "reachableStars s \<Longrightarrow>
     length (activeShootingStars s) \<le> activeMax \<and> length (alphas s) = count"
proof (induction rule: reachableStars.induct)
  case init
  show ?case by (simp add: createShootingStars_def)
next
  case (frame s now u d deltaTime)
  then show ?case using userData_update_inv by blast
qed

lemma reachableStars_empty: "reachableStars s \<Longrightarrow> activeShootingStars s = []"
proof (induction rule: reachableStars.induct)
  case init
  show ?case by (simp add: createShootingStars_def)
next
  case (frame s now u d deltaTime)
  then have e: "activeShootingStars (updateShootingStars deltaTime s) = []"
    by (simp add: updateShootingStars_active)
  then have "activeShootingStars ((updateShootingStars deltaTime s)\<lparr>lastCheck := int now\<rparr>) = []"
    by simp
  then have "createNewShootingStar d ((updateShootingStars deltaTime s)\<lparr>lastCheck := int now\<rparr>)
    = Inl (TypeError, (updateShootingStars deltaTime s)\<lparr>lastCheck := int now\<rparr>)"
    by (intro spawn_throws) (simp add: activeMax_def)
  with e show ?case
    by (simp add: userData_update_def Let_def stateOf_def)
qed

text \<open>
  Claim C3. For an active shooting star whose progress after this frame's increment is
  \<open>p\<close> and whose maximum alpha is \<open>A\<close>, \<open>updateShootingStars\<close> leaves in the star's
  slot the alpha \<open>A * p / 0.2\<close> for \<open>p < 0.2\<close>, \<open>A\<close> for \<open>0.2 \<le> p < 0.8\<close>,
  \<open>A * (1 - p) / 0.2\<close> for \<open>0.8 \<le> p < 1\<close> and 0 from 1 on. The envelope is 0 at 0,
  \<open>A\<close> at 0.2 and at 0.8, 0 at 1, rises on the first segment, is constant on the second
  and falls on the third. The stars of the list occupy different slots.
\<close>
theorem alpha_envelope:
  assumes "distinct (map index (activeShootingStars s))"
    and "star \<in> set (activeShootingStars s)"
    and "index star < length (alphas s)"
    and "0 \<le> maxAlpha star"
    and "p = progress star + deltaTime * speed star * 0.1"
    and "A = maxAlpha star"
    and "a = alphas (updateShootingStars deltaTime s) ! index star"
  shows "a = newAlpha p A
    \<and> (p < 0.2 \<longrightarrow> a = A * (p / 0.2))
    \<and> (0.2 \<le> p \<and> p < 0.8 \<longrightarrow> a = A)
    \<and> (0.8 \<le> p \<and> p < 1 \<longrightarrow> a = A * ((1 - p) / 0.2))
    \<and> (1 \<le> p \<longrightarrow> a = 0)
    \<and> newAlpha 0 A = 0 \<and> newAlpha 0.2 A = A \<and> newAlpha 0.8 A = A \<and> newAlpha 1.0 A = 0
    \<and> (q \<le> q' \<and> q' < 0.2 \<longrightarrow> newAlpha q A \<le> newAlpha q' A)
    \<and> (0.2 \<le> r \<and> r \<le> r' \<and> r' < 0.8 \<longrightarrow> newAlpha r A = newAlpha r' A)
    \<and> (0.8 \<le> t \<and> t \<le> t' \<and> t' < 1 \<longrightarrow> newAlpha t' A \<le> newAlpha t A)"
proof -
  have a: "a = newAlpha p A"
    using updateLoop_alphas_star [OF assms(1) assms(2), of "(positions s, alphas s)" deltaTime]
      assms(3) assms(5) assms(6) assms(7)
    by (simp add: updateShootingStars_alphas advance_def)
  have A: "0 \<le> A" using assms(4) assms(6) by simp
  have m1: "q \<le> q' \<and> q' < 0.2 \<longrightarrow> newAlpha q A \<le> newAlpha q' A"
  proof
    assume h: "q \<le> q' \<and> q' < 0.2"
    then have "q * A \<le> q' * A" using A by (simp add: mult_right_mono)
    with h show "newAlpha q A \<le> newAlpha q' A"
      by (simp add: newAlpha_def mapLinear_def field_simps)
  qed
  have m3: "0.8 \<le> t \<and> t \<le> t' \<and> t' < 1 \<longrightarrow> newAlpha t' A \<le> newAlpha t A"
  proof
    assume h: "0.8 \<le> t \<and> t \<le> t' \<and> t' < 1"
    then have "(t - 0.8) * A \<le> (t' - 0.8) * A" using A by (simp add: mult_right_mono)
    with h show "newAlpha t' A \<le> newAlpha t A"
      by (simp add: newAlpha_def mapLinear_def field_simps)
  qed
  show ?thesis using a m1 m3
    by (simp add: newAlpha_def mapLinear_def field_simps)
qed

theorem alpha_envelope_witness:
  "alphas (updateShootingStars 0.5 (exampleStars [exampleStar])) ! index exampleStar = 0.6
   \<and> alphas (updateShootingStars 3 (exampleStars [exampleStar])) ! index exampleStar = 0.8
   \<and> alphas (updateShootingStars 8 (exampleStars [exampleStar])) ! index exampleStar = 0.4
   \<and> alphas (updateShootingStars 10 (exampleStars [exampleStar])) ! index exampleStar = 0
   \<and> newAlpha 0.05 0.8 \<le> newAlpha 0.1 0.8
   \<and> newAlpha 0.3 0.8 = newAlpha 0.6 0.8
   \<and> newAlpha 0.95 0.8 \<le> newAlpha 0.85 0.8"
proof -
  let ?s = "exampleStars [exampleStar]"
  have h1: "distinct (map index (activeShootingStars ?s))"
    by (simp add: exampleStars_def)
  have h2: "exampleStar \<in> set (activeShootingStars ?s)"
    by (simp add: exampleStars_def)
  have h3: "index exampleStar < length (alphas ?s)"
    by (simp add: exampleStars_def exampleStar_def createShootingStars_def count_def)
  have h4: "0 \<le> maxAlpha exampleStar"
    by (simp add: exampleStar_def)
  have A: "0.8 = maxAlpha exampleStar"
    by (simp add: exampleStar_def)
  have p1: "0.15 = progress exampleStar + 0.5 * speed exampleStar * 0.1"
    by (simp add: exampleStar_def)
  have p2: "0.4 = progress exampleStar + 3 * speed exampleStar * 0.1"
    by (simp add: exampleStar_def)
  have p3: "0.9 = progress exampleStar + 8 * speed exampleStar * 0.1"
    by (simp add: exampleStar_def)
  have p4: "1.1 = progress exampleStar + 10 * speed exampleStar * 0.1"
    by (simp add: exampleStar_def)
  note t1 = alpha_envelope [OF h1 h2 h3 h4 p1 A refl, of "0.05" "0.1" "0.3" "0.6" "0.85" "0.95"]
  note t2 = alpha_envelope [OF h1 h2 h3 h4 p2 A refl, of "0.05" "0.1" "0.3" "0.6" "0.85" "0.95"]
  note t3 = alpha_envelope [OF h1 h2 h3 h4 p3 A refl, of "0.05" "0.1" "0.3" "0.6" "0.85" "0.95"]
  note t4 = alpha_envelope [OF h1 h2 h3 h4 p4 A refl, of "0.05" "0.1" "0.3" "0.6" "0.85" "0.95"]
  have a1: "alphas (updateShootingStars 0.5 ?s) ! index exampleStar = 0.6"
    using t1 [THEN conjunct2, THEN conjunct1] by simp
  have a2: "alphas (updateShootingStars 3 ?s) ! index exampleStar = 0.8"
    using t2 [THEN conjunct2, THEN conjunct2, THEN conjunct1] by simp
  have a3: "alphas (updateShootingStars 8 ?s) ! index exampleStar = 0.4"
    using t3 [THEN conjunct2, THEN conjunct2, THEN conjunct2, THEN conjunct1] by simp
  have a4: "alphas (updateShootingStars 10 ?s) ! index exampleStar = 0"
    using t4 [THEN conjunct2, THEN conjunct2, THEN conjunct2, THEN conjunct2, THEN conjunct1]
    by simp
  note mono = t1 [THEN conjunct2, THEN conjunct2, THEN conjunct2, THEN conjunct2, THEN conjunct2,
    THEN conjunct2, THEN conjunct2, THEN conjunct2, THEN conjunct2]
  have m1: "newAlpha 0.05 0.8 \<le> newAlpha 0.1 0.8"
    using mono [THEN conjunct1] by simp
  have m2: "newAlpha 0.3 0.8 = newAlpha 0.6 0.8"
    using mono [THEN conjunct2, THEN conjunct1] by simp
  have m3: "newAlpha 0.95 0.8 \<le> newAlpha 0.85 0.8"
    using mono [THEN conjunct2, THEN conjunct2] by simp
  show ?thesis
    using a1 a2 a3 a4 m1 m2 m3 by (intro conjI)
qed

text \<open>
  Claim C7. On an update step that takes the progress of an active star to 1 or beyond,
  the star leaves the active list (no star of its slot remains, the list gets shorter,
  every star that stays has progress below 1) and the alpha of its slot is 0.
\<close>
theorem completed_star_removed:
  assumes "distinct (map index (activeShootingStars s))"
    and "star \<in> set (activeShootingStars s)"
    and "index star < length (alphas s)"
    and "1 \<le> progress star + deltaTime * speed star * 0.1"
    and "s' = updateShootingStars deltaTime s"
  shows "advance deltaTime star \<notin> set (activeShootingStars s')
    \<and> (\<forall>st \<in> set (activeShootingStars s'). index st \<noteq> index star \<and> progress st < 1)
    \<and> length (activeShootingStars s') < length (activeShootingStars s)
    \<and> alphas s' ! index star = 0"
proof -
  let ?P = "\<lambda>st. progress st < 1"
  have act: "activeShootingStars s' = filter ?P (map (advance deltaTime) (activeShootingStars s))"
    using assms(5) by (simp add: updateShootingStars_active)
  have fin: "\<not> ?P (advance deltaTime star)"
    using assms(4) by (simp add: advance_def)
  have gone: "advance deltaTime star \<notin> set (activeShootingStars s')"
    using fin act by simp
  have others: "\<forall>st \<in> set (activeShootingStars s'). index st \<noteq> index star \<and> progress st < 1"
  proof
    fix st assume "st \<in> set (activeShootingStars s')"
    with act obtain st0 where st0: "st0 \<in> set (activeShootingStars s)"
      and st: "st = advance deltaTime st0" and p: "progress st < 1" by auto
    have "index st0 \<noteq> index star"
    proof
      assume "index st0 = index star"
      with assms(1) assms(2) st0 have "st0 = star"
        by (meson distinct_map inj_onD)
      with st p fin show False by simp
    qed
    with st p show "index st \<noteq> index star \<and> progress st < 1"
      by (simp add: advance_def)
  qed
  have "advance deltaTime star \<in> set (map (advance deltaTime) (activeShootingStars s))"
    using assms(2) by simp
  from length_filter_less [of "advance deltaTime star" _ ?P, OF this fin]
  have shorter: "length (activeShootingStars s') < length (activeShootingStars s)"
    using act by simp
  have "alphas s' ! index star = newAlpha (progress (advance deltaTime star)) (maxAlpha star)"
    using updateLoop_alphas_star [OF assms(1) assms(2), of "(positions s, alphas s)" deltaTime]
      assms(3) assms(5)
    by (simp add: updateShootingStars_alphas)
  with fin have "alphas s' ! index star = 0"
    by (simp add: newAlpha_done)
  with gone others shorter show ?thesis by simp
qed

theorem completed_star_removed_witness:
  "activeShootingStars (updateShootingStars 10 (exampleStars [exampleStar])) = []
   \<and> alphas (updateShootingStars 10 (exampleStars [exampleStar])) ! 0 = 0"
  using completed_star_removed [of "exampleStars [exampleStar]" exampleStar 10
    "updateShootingStars 10 (exampleStars [exampleStar])"]
  by (simp add: exampleStars_def exampleStar_def createShootingStars_def count_def)

text \<open>
  Claim C4. In every reachable state of the shooting-star system at most 3 stars are
  active and the pool has 20 slots; with 3 (or more) stars active,
  \<open>createNewShootingStar\<close> returns normally and leaves the whole state as it was.
\<close>
theorem shooting_star_cap:
  "(reachableStars s \<longrightarrow> length (activeShootingStars s) \<le> 3 \<and> length (alphas s) = 20)
   \<and> (3 \<le> length (activeShootingStars s') \<longrightarrow> createNewShootingStar d s' = Inr s')"
  using reachableStars_inv [of s]
  by (simp add: activeMax_def count_def createNewShootingStar_def)

theorem shooting_star_cap_witness:
  "reachableStars createShootingStars
   \<and> length (activeShootingStars createShootingStars) \<le> 3
   \<and> length (alphas createShootingStars) = 20
   \<and> createNewShootingStar exampleDraws (exampleStars exampleThree)
       = Inr (exampleStars exampleThree)"
  using shooting_star_cap [of createShootingStars "exampleStars exampleThree" exampleDraws]
    reachableStars.init
  by (simp add: exampleStars_def exampleThree_def)

text \<open>
  Claim C10. A spawn is meant to leave alpha 0.1 in the slot it takes. On the fresh pool
  (and on every state with fewer than 3 active stars, see \<open>spawn_throws\<close>)
  \<open>createNewShootingStar\<close> throws in the slot search before it activates anything:
  slot 0 keeps alpha 0 and no star is added.
\<close>
theorem spawn_on_fresh_pool_throws:
  "createNewShootingStar d createShootingStars = Inl (TypeError, createShootingStars)
   \<and> alphas (stateOf (createNewShootingStar d createShootingStars)) ! 0 = 0
   \<and> activeShootingStars (stateOf (createNewShootingStar d createShootingStars)) = []"
  using spawn_throws [of createShootingStars d]
  by (simp add: createShootingStars_def activeMax_def count_def stateOf_def)



section \<open>Camera path\<close>

lemma points_fold_addPoint: "points (fold (addPoint lib) ps cp) = points cp @ ps"
  by (induction ps arbitrary: cp) (simp_all add: addPoint_def updateCurve_def)


lemma points_pathThrough: "points (pathThrough lib ps) = ps"
  by (simp add: pathThrough_def points_fold_addPoint newCameraPath_def)



lemma jsRem_nonneg:
  assumes "0 \<le> x"
  shows "0 \<le> jsRem x 1 \<and> jsRem x 1 < 1"
proof -
  have "jsRem x 1 = x - of_int \<lfloor>x\<rfloor>" using assms by (simp add: jsRem_def)
  moreover have "of_int \<lfloor>x\<rfloor> \<le> x" by (rule of_int_floor_le)
  moreover have "x < of_int \<lfloor>x\<rfloor> + 1"
    using floor_correct [of x] by simp
  ultimately show ?thesis by linarith
qed

text \<open>Both arguments with which \<open>animate\<close> queries the path lie in \<open>[0, 1)\<close>.\<close>

lemma driveCamera_queries:
  fixes n :: nat and e :: real
  defines "pathPosition \<equiv> real (n mod 300000) / 300000"
  defines "lookAheadAmount \<equiv> 0.01 + sin (e * 0.2) * 0.005"
  shows "0 \<le> pathPosition \<and> pathPosition < 1
    \<and> 0 \<le> jsRem (pathPosition + lookAheadAmount) 1
    \<and> jsRem (pathPosition + lookAheadAmount) 1 < 1"
proof -
  have p: "0 \<le> pathPosition \<and> pathPosition < 1"
    by (simp add: pathPosition_def)
  have "0 \<le> 2 + sin (e / 5)"
    using sin_ge_minus_one [of "e / 5"] by linarith
  then have "0 \<le> lookAheadAmount"
    unfolding lookAheadAmount_def by (simp add: field_simps)
  with p have "0 \<le> pathPosition + lookAheadAmount" by simp
  from jsRem_nonneg [OF this] p show ?thesis by simp
qed

text \<open>
  Claim C8. With fewer than 2 control points, \<open>getPointAt\<close> returns the origin
  \<open>(0, 0, 0)\<close> for every \<open>t\<close>: for any path object whose point list is that short,
  and for the path built by fewer than 2 calls of \<open>addPoint\<close>. The function has no
  failing branch, and the library curve is not consulted.
\<close>

theorem degenerate_path_origin:
  "(length (points cp) < 2 \<longrightarrow> getPointAt cp t = (0, 0, 0))
   \<and> (length ps < 2 \<longrightarrow> getPointAt (pathThrough lib ps) t = (0, 0, 0))"
  by (simp add: getPointAt_def points_pathThrough split: option.splits)

theorem degenerate_path_origin_witness:
  "getPointAt newCameraPath 0.5 = (0, 0, 0)
   \<and> getPointAt (pathThrough exampleCurve [(0, 20, 100)]) 0.5 = (0, 0, 0)"
  using degenerate_path_origin [of newCameraPath "0.5" "[(0, 20, 100)]" exampleCurve]
  by (simp add: newCameraPath_def)





section \<open>The animation loop\<close>

lemma exampleJourney_simps:
  "\<not> dramaticEventTriggered exampleJourney" "journeyStarted exampleJourney"
  "isAutoPilot exampleJourney" "nextObject exampleJourney = 0"
  "children exampleJourney = {}" "dramaticEvent exampleJourney = None"
  "activeShootingStars (starfieldObjects exampleJourney) = []"
  "lastCheck (starfieldObjects exampleJourney) = 0"
  by (simp_all add: exampleJourney_def startJourney_def init_def createShootingStars_def)


lemma exampleTriggered_simps:
  "dramaticEventTriggered exampleTriggered"
  "dramaticEvent exampleTriggered = Some exampleEvent"
  "children exampleTriggered = {0, 1, 2}"
  by (auto simp: exampleTriggered_def triggerDramaticEvent_def createShockwave_def Let_def
      exampleJourney_simps frameAt_def exampleEvent_def)

lemma frame_simps:
  "uSpawn (frameAt now t u) = 0.9" "elapsedTime (frameAt now t u) = t"
  "uEvent (frameAt now t u) = u" "eventClock (frameAt now t u) = t"
  by (simp_all add: frameAt_def)

lemma updateDramaticEvent_dormant:
  "\<not> dramaticEventTriggered s \<Longrightarrow> updateDramaticEvent elapsed s = s"
  by (simp add: updateDramaticEvent_def split: option.splits)

lemma advanceAnimations_cases:
  "(\<exists>e st. advanceAnimations f s = Inl (e, s\<lparr>starfieldObjects := st\<rparr>))
   \<or> (\<exists>st ws ch. advanceAnimations f s =
         Inr (updateDramaticEvent (elapsedTime f)
                (s\<lparr>starfieldObjects := st, updateableObjects := ws, children := ch\<rparr>)))"
  by (auto simp: advanceAnimations_def Let_def split: sum.splits prod.splits)

lemma updateDramaticEvent_mode:
  "journeyStarted (updateDramaticEvent elapsed s) = journeyStarted s
   \<and> isAutoPilot (updateDramaticEvent elapsed s) = isAutoPilot s"
  by (simp add: updateDramaticEvent_def Let_def split: option.splits)

lemma advanceAnimations_dormant:
  assumes "\<not> dramaticEventTriggered s"
  shows "\<not> dramaticEventTriggered (stateOf (advanceAnimations f s))
    \<and> journeyStarted (stateOf (advanceAnimations f s)) = journeyStarted s
    \<and> isAutoPilot (stateOf (advanceAnimations f s)) = isAutoPilot s"
  using assms advanceAnimations_cases [of f s]
  by (auto simp: stateOf_def updateDramaticEvent_dormant)

lemma triggerDramaticEvent_flag: "dramaticEventTriggered (triggerDramaticEvent f s)"
  by (simp add: triggerDramaticEvent_def createShockwave_def Let_def)

lemma driveCamera_flag:
  assumes "\<not> dramaticEventTriggered s"
  shows "dramaticEventTriggered (driveCamera f s)
    \<longleftrightarrow> journeyStarted s \<and> isAutoPilot s \<and> elapsedTime f > 60 \<and> uEvent f < 0.001"
  using assms
  by (auto simp: driveCamera_def Let_def triggerDramaticEvent_flag split: prod.splits)

lemma animate_stateOf:
  "stateOf (animate f s) =
     (if returned (advanceAnimations f s) then driveCamera f (stateOf (advanceAnimations f s))
      else stateOf (advanceAnimations f s))"
  by (simp add: animate_def stateOf_def returned_def split: sum.splits prod.splits)

lemma animate_returned: "returned (animate f s) = returned (advanceAnimations f s)"
  by (simp add: animate_def returned_def split: sum.splits prod.splits)

lemma updateShootingStars_empty:
  "activeShootingStars st = [] \<Longrightarrow> updateShootingStars dt st = st"
  by (cases st) (simp add: updateShootingStars_def)

lemma userData_update_empty:
  "activeShootingStars st = [] \<Longrightarrow>
     userData_update now u d dt st =
       (if 3000 < int now - lastCheck st then
          (if u < 0.4 then Inl (TypeError, st\<lparr>lastCheck := int now\<rparr>)
           else Inr (st\<lparr>lastCheck := int now\<rparr>))
        else Inr st)"
  by (simp add: userData_update_def updateShootingStars_empty Let_def spawn_throws activeMax_def)

lemma updateDramaticEvent_starfield:
  "starfieldObjects (updateDramaticEvent elapsed s) = starfieldObjects s"
  by (simp add: updateDramaticEvent_def Let_def split: option.splits)

lemma triggerDramaticEvent_starfield:
  "starfieldObjects (triggerDramaticEvent f s) = starfieldObjects s"
  by (simp add: triggerDramaticEvent_def createShockwave_def Let_def)

lemma driveCamera_starfield: "starfieldObjects (driveCamera f s) = starfieldObjects s"
  by (simp add: driveCamera_def Let_def triggerDramaticEvent_starfield split: prod.splits)

lemma advanceAnimations_starfield:
  "starfieldObjects (stateOf (advanceAnimations f s)) =
     stateOf (userData_update (nowStars f) (uSpawn f) (spawnDraws f) (delta f)
                (starfieldObjects s))"
  by (simp add: advanceAnimations_def stateOf_def Let_def updateDramaticEvent_starfield
      split: sum.splits prod.splits)

lemma advanceAnimations_returned:
  "returned (advanceAnimations f s) =
     returned (userData_update (nowStars f) (uSpawn f) (spawnDraws f) (delta f)
                 (starfieldObjects s))"
  by (simp add: advanceAnimations_def returned_def Let_def split: sum.splits prod.splits)

lemma animate_starfield:
  "starfieldObjects (stateOf (animate f s)) =
     stateOf (userData_update (nowStars f) (uSpawn f) (spawnDraws f) (delta f)
                (starfieldObjects s))"
  by (simp add: animate_stateOf driveCamera_starfield advanceAnimations_starfield)

lemma userData_update_quiet:
  assumes "activeShootingStars st = []" and "\<not> u < 0.4"
  shows "returned (userData_update now u d dt st)
    \<and> activeShootingStars (stateOf (userData_update now u d dt st)) = []"
  using assms by (simp add: userData_update_empty returned_def stateOf_def)

lemma animate_quiet:
  assumes "activeShootingStars (starfieldObjects s) = []" and "\<not> uSpawn f < 0.4"
  shows "returned (animate f s)
    \<and> activeShootingStars (starfieldObjects (stateOf (animate f s))) = []"
  using userData_update_quiet [OF assms]
  by (simp add: animate_returned advanceAnimations_returned animate_starfield)

lemma triggerDramaticEvent_mode:
  "journeyStarted (triggerDramaticEvent f s) = journeyStarted s
   \<and> isAutoPilot (triggerDramaticEvent f s) = isAutoPilot s"
  by (simp add: triggerDramaticEvent_def createShockwave_def Let_def)

lemma driveCamera_mode:
  "journeyStarted (driveCamera f s) = journeyStarted s
   \<and> isAutoPilot (driveCamera f s) = isAutoPilot s"
  by (simp add: driveCamera_def Let_def triggerDramaticEvent_mode split: prod.splits)

lemma advanceAnimations_mode:
  "journeyStarted (stateOf (advanceAnimations f s)) = journeyStarted s
   \<and> isAutoPilot (stateOf (advanceAnimations f s)) = isAutoPilot s"
  using advanceAnimations_cases [of f s]
  by (auto simp: stateOf_def updateDramaticEvent_mode)

lemma animate_mode:
  "journeyStarted (stateOf (animate f s)) = journeyStarted s
   \<and> isAutoPilot (stateOf (animate f s)) = isAutoPilot s"
  by (simp add: animate_stateOf driveCamera_mode advanceAnimations_mode)

lemma driveCamera_triggers:
  assumes "\<not> dramaticEventTriggered s" and "journeyStarted s" and "isAutoPilot s"
    and "elapsedTime f > 60" and "uEvent f < 0.001"
  shows "map_option startTime (dramaticEvent (driveCamera f s)) = Some (eventClock f)
    \<and> map_option duration (dramaticEvent (driveCamera f s)) = Some 25"
  using assms
  by (simp add: driveCamera_def triggerDramaticEvent_def createShockwave_def Let_def)

lemma driveCamera_no_trigger:
  assumes "\<not> uEvent f < 0.001"
  shows "dramaticEventTriggered (driveCamera f s) = dramaticEventTriggered s
    \<and> dramaticEvent (driveCamera f s) = dramaticEvent s"
  using assms by (simp add: driveCamera_def Let_def split: prod.splits)

lemma updateDramaticEvent_complete:
  assumes "dramaticEventTriggered s" and "dramaticEvent s = Some ev"
    and "0 < duration ev" and "duration ev \<le> elapsed - startTime ev"
  shows "\<not> dramaticEventTriggered (updateDramaticEvent elapsed s)
    \<and> dramaticEvent (updateDramaticEvent elapsed s) = None"
proof -
  have "1 \<le> (elapsed - startTime ev) / duration ev"
    using assms(3) assms(4) by (simp add: le_divide_eq)
  then have "min ((elapsed - startTime ev) / duration ev) 1 = 1" by simp
  then show ?thesis
    using assms(1) assms(2) by (simp add: updateDramaticEvent_def Let_def)
qed


lemma animate_triggers:
  assumes "\<not> dramaticEventTriggered s" and "journeyStarted s" and "isAutoPilot s"
    and "elapsedTime f > 60" and "uEvent f < 0.001" and "returned (animate f s)"
  shows "dramaticEventTriggered (stateOf (animate f s))
    \<and> map_option startTime (dramaticEvent (stateOf (animate f s))) = Some (eventClock f)
    \<and> map_option duration (dramaticEvent (stateOf (animate f s))) = Some 25"
proof -
  note a = advanceAnimations_dormant [OF assms(1), of f]
  from a have d: "\<not> dramaticEventTriggered (stateOf (advanceAnimations f s))" by simp
  from a assms have j: "journeyStarted (stateOf (advanceAnimations f s))"
    and p: "isAutoPilot (stateOf (advanceAnimations f s))" by simp_all
  note t = driveCamera_triggers [OF d j p assms(4) assms(5)]
  note c = driveCamera_flag [OF d, of f]
  from assms(6) have r: "returned (advanceAnimations f s)" by (simp add: animate_returned)
  show ?thesis
    using t c j p assms(4) assms(5) r by (simp add: animate_stateOf)
qed

lemma animate_completes:
  assumes "dramaticEventTriggered s" and "dramaticEvent s = Some ev"
    and "0 < duration ev" and "duration ev \<le> elapsedTime f - startTime ev"
    and "\<not> uEvent f < 0.001" and "returned (animate f s)"
  shows "\<not> dramaticEventTriggered (stateOf (animate f s))
    \<and> dramaticEvent (stateOf (animate f s)) = None"
proof -
  from assms(6) have r: "returned (advanceAnimations f s)" by (simp add: animate_returned)
  with advanceAnimations_cases [of f s] obtain st ws ch where
    a: "advanceAnimations f s = Inr (updateDramaticEvent (elapsedTime f)
          (s\<lparr>starfieldObjects := st, updateableObjects := ws, children := ch\<rparr>))"
    by (auto simp: returned_def)
  let ?s2 = "s\<lparr>starfieldObjects := st, updateableObjects := ws, children := ch\<rparr>"
  have "dramaticEventTriggered ?s2" and "dramaticEvent ?s2 = Some ev"
    using assms(1) assms(2) by simp_all
  from updateDramaticEvent_complete [OF this assms(3) assms(4)]
  have "\<not> dramaticEventTriggered (stateOf (advanceAnimations f s))
    \<and> dramaticEvent (stateOf (advanceAnimations f s)) = None"
    by (simp add: a stateOf_def)
  with driveCamera_no_trigger [OF assms(5), of "stateOf (advanceAnimations f s)"] r
  show ?thesis by (simp add: animate_stateOf)
qed



lemma triggerDramaticEvent_noop:
  "dramaticEventTriggered s \<Longrightarrow> triggerDramaticEvent f s = s"
  by (simp add: triggerDramaticEvent_def)



text \<open>
  Claim C6. While the event is triggered, with \<open>p\<close> the elapsed fraction of its
  duration capped at 1: for \<open>p < 0.3\<close> the scale becomes \<open>1 + 100 p\<close> and the light
  intensity \<open>10 p\<close>; for \<open>0.3 \<le> p < 0.7\<close> the scale stays as it was and the
  intensity is \<open>3 + 1.5 sin (3 elapsedTime)\<close>; for \<open>0.7 \<le> p < 1\<close> scale and
  intensity are 30 and 3 times \<open>1 - (p - 0.7) / 0.3\<close>; below 1 the event stays
  triggered and the scene keeps its objects; at \<open>p \<ge> 1\<close> the mesh and the light leave
  the scene, the flag is cleared and the event record is deleted. The event that
  \<open>triggerDramaticEvent\<close> creates has duration 25; the duration is taken to be
  non-zero, since a quotient by zero is not a number in JavaScript and 0 here.
\<close>

theorem supernova_phases:
  assumes "dramaticEventTriggered s"
    and "dramaticEvent s = Some ev"
    and "duration ev \<noteq> 0"
    and "p = min ((elapsed - startTime ev) / duration ev) 1"
    and "s' = updateDramaticEvent elapsed s"
  shows "(p < 0.3 \<longrightarrow>
            map_option supernovaScale (dramaticEvent s') = Some (1 + 100 * p)
          \<and> map_option intensity (dramaticEvent s') = Some (10 * p))
    \<and> (0.3 \<le> p \<and> p < 0.7 \<longrightarrow>
            map_option supernovaScale (dramaticEvent s') = Some (supernovaScale ev)
          \<and> map_option intensity (dramaticEvent s') = Some (3 + 1.5 * sin (3 * elapsed)))
    \<and> (0.7 \<le> p \<and> p < 1 \<longrightarrow>
            map_option supernovaScale (dramaticEvent s') = Some (30 * (1 - (p - 0.7) / 0.3))
          \<and> map_option intensity (dramaticEvent s') = Some (3 * (1 - (p - 0.7) / 0.3)))
    \<and> (p < 1 \<longrightarrow> dramaticEventTriggered s' \<and> children s' = children s)
    \<and> (1 \<le> p \<longrightarrow>
            supernova ev \<notin> children s' \<and> supernovaLight ev \<notin> children s'
          \<and> \<not> dramaticEventTriggered s' \<and> dramaticEvent s' = None)
    \<and> (\<not> dramaticEventTriggered s0 \<longrightarrow>
            map_option duration (dramaticEvent (triggerDramaticEvent f s0)) = Some 25)"
proof -
  have d: "\<not> dramaticEventTriggered s0 \<longrightarrow>
            map_option duration (dramaticEvent (triggerDramaticEvent f s0)) = Some 25"
    by (simp add: triggerDramaticEvent_def createShockwave_def Let_def)
  have u: "p < 1 \<or> 1 \<le> p" by linarith
  show ?thesis
    using assms d
    by (auto simp: updateDramaticEvent_def Let_def mult.commute)
qed

theorem supernova_phases_witness:
  "map_option supernovaScale (dramaticEvent (updateDramaticEvent 66 exampleTriggered)) = Some 21
   \<and> map_option intensity (dramaticEvent (updateDramaticEvent 66 exampleTriggered)) = Some 2
   \<and> map_option supernovaScale (dramaticEvent (updateDramaticEvent (147 / 2) exampleTriggered))
       = Some 1
   \<and> map_option intensity (dramaticEvent (updateDramaticEvent (147 / 2) exampleTriggered))
       = Some (3 + 1.5 * sin (3 * (147 / 2)))
   \<and> map_option supernovaScale (dramaticEvent (updateDramaticEvent 81 exampleTriggered)) = Some 20
   \<and> map_option intensity (dramaticEvent (updateDramaticEvent 81 exampleTriggered)) = Some 2
   \<and> children (updateDramaticEvent 81 exampleTriggered) = {0, 1, 2}
   \<and> children (updateDramaticEvent 86 exampleTriggered) = {2}
   \<and> \<not> dramaticEventTriggered (updateDramaticEvent 86 exampleTriggered)
   \<and> dramaticEvent (updateDramaticEvent 86 exampleTriggered) = None
   \<and> map_option duration (dramaticEvent exampleTriggered) = Some 25"
proof -
  have nz: "duration exampleEvent \<noteq> 0" by (simp add: exampleEvent_def)
  note h = exampleTriggered_simps(1) exampleTriggered_simps(2) nz
  have p1: "1 / 5 = min ((66 - startTime exampleEvent) / duration exampleEvent) 1"
    by (simp add: exampleEvent_def)
  have p2: "1 / 2 = min ((147 / 2 - startTime exampleEvent) / duration exampleEvent) 1"
    by (simp add: exampleEvent_def)
  have p3: "4 / 5 = min ((81 - startTime exampleEvent) / duration exampleEvent) 1"
    by (simp add: exampleEvent_def)
  have p4: "1 = min ((86 - startTime exampleEvent) / duration exampleEvent) 1"
    by (simp add: exampleEvent_def)
  have d: "\<not> dramaticEventTriggered exampleJourney" by (rule exampleJourney_simps)
  note t1 = supernova_phases [OF h p1 refl, of exampleJourney "frameAt 1700000061000 61 0"]
  note t2 = supernova_phases [OF h p2 refl, of exampleJourney "frameAt 1700000061000 61 0"]
  note t3 = supernova_phases [OF h p3 refl, of exampleJourney "frameAt 1700000061000 61 0"]
  note t4 = supernova_phases [OF h p4 refl, of exampleJourney "frameAt 1700000061000 61 0"]
  have a1: "map_option supernovaScale (dramaticEvent (updateDramaticEvent 66 exampleTriggered))
      = Some 21
    \<and> map_option intensity (dramaticEvent (updateDramaticEvent 66 exampleTriggered)) = Some 2"
    using t1 [THEN conjunct1] by simp
  have a2: "map_option supernovaScale
        (dramaticEvent (updateDramaticEvent (147 / 2) exampleTriggered)) = Some 1
    \<and> map_option intensity (dramaticEvent (updateDramaticEvent (147 / 2) exampleTriggered))
        = Some (3 + 1.5 * sin (3 * (147 / 2)))"
    using t2 [THEN conjunct2, THEN conjunct1] by (simp add: exampleEvent_def)
  have a3: "map_option supernovaScale (dramaticEvent (updateDramaticEvent 81 exampleTriggered))
      = Some 20
    \<and> map_option intensity (dramaticEvent (updateDramaticEvent 81 exampleTriggered)) = Some 2"
    using t3 [THEN conjunct2, THEN conjunct2, THEN conjunct1] by simp
  have a3': "children (updateDramaticEvent 81 exampleTriggered) = {0, 1, 2}"
    using t3 [THEN conjunct2, THEN conjunct2, THEN conjunct2, THEN conjunct1]
    by (simp add: exampleTriggered_simps)
  have a4: "\<not> dramaticEventTriggered (updateDramaticEvent 86 exampleTriggered)
    \<and> dramaticEvent (updateDramaticEvent 86 exampleTriggered) = None"
    using t4 [THEN conjunct2, THEN conjunct2, THEN conjunct2, THEN conjunct2, THEN conjunct1]
    by simp
  have a4': "children (updateDramaticEvent 86 exampleTriggered) = {2}"
    by (auto simp: updateDramaticEvent_def exampleTriggered_simps exampleEvent_def Let_def)
  have a5: "map_option duration (dramaticEvent exampleTriggered) = Some 25"
    using t1 [THEN conjunct2, THEN conjunct2, THEN conjunct2, THEN conjunct2, THEN conjunct2] d
    by (simp add: exampleTriggered_def)
  show ?thesis
    using a1 a2 a3 a3' a4 a4' a5 by simp
qed




text \<open>
  Claim C1. The event is meant to fire once per journey. In the session below the journey
  is started, the first frame (61 s, draw 0) triggers the event, the second (86 s, 25 s
  later) completes it, which clears \<open>dramaticEventTriggered\<close>, and the third (87 s,
  draw 0) passes the same guard again: the event is triggered a second time, with start
  time 87.
\<close>

theorem supernova_fires_twice:
  "dramaticEventTriggered (run [frame1] exampleJourney)
   \<and> map_option startTime (dramaticEvent (run [frame1] exampleJourney)) = Some 61
   \<and> \<not> dramaticEventTriggered (run [frame1, frame2] exampleJourney)
   \<and> dramaticEvent (run [frame1, frame2] exampleJourney) = None
   \<and> dramaticEventTriggered (run [frame1, frame2, frame3] exampleJourney)
   \<and> map_option startTime (dramaticEvent (run [frame1, frame2, frame3] exampleJourney)) = Some 87"
proof -
  let ?s1 = "stateOf (animate frame1 exampleJourney)"
  let ?s2 = "stateOf (animate frame2 ?s1)"
  let ?s3 = "stateOf (animate frame3 ?s2)"
  note q1 = animate_quiet [of exampleJourney frame1]
  have r1: "returned (animate frame1 exampleJourney)"
    and e1: "activeShootingStars (starfieldObjects ?s1) = []"
    using q1 by (simp_all add: exampleJourney_simps frame1_def frame_simps)
  have t1: "dramaticEventTriggered ?s1
    \<and> map_option startTime (dramaticEvent ?s1) = Some 61
    \<and> map_option duration (dramaticEvent ?s1) = Some 25"
    using animate_triggers [of exampleJourney frame1] r1
    by (simp add: exampleJourney_simps frame1_def frame_simps)
  then obtain ev where ev: "dramaticEvent ?s1 = Some ev" "startTime ev = 61" "duration ev = 25"
    by auto
  have m1: "journeyStarted ?s1 \<and> isAutoPilot ?s1"
    by (simp add: animate_mode exampleJourney_simps)
  note q2 = animate_quiet [of ?s1 frame2]
  have r2: "returned (animate frame2 ?s1)"
    and e2: "activeShootingStars (starfieldObjects ?s2) = []"
    using q2 e1 by (simp_all add: frame2_def frame_simps)
  have t2: "\<not> dramaticEventTriggered ?s2 \<and> dramaticEvent ?s2 = None"
    using animate_completes [of ?s1 ev frame2] t1 ev r2
    by (simp add: frame2_def frame_simps)
  have m2: "journeyStarted ?s2 \<and> isAutoPilot ?s2"
    using m1 by (simp add: animate_mode)
  note q3 = animate_quiet [of ?s2 frame3]
  have r3: "returned (animate frame3 ?s2)"
    using q3 e2 by (simp_all add: frame3_def frame_simps)
  have t3: "dramaticEventTriggered ?s3 \<and> map_option startTime (dramaticEvent ?s3) = Some 87"
    using animate_triggers [of ?s2 frame3] t2 m2 r3
    by (simp add: frame3_def frame_simps)
  show ?thesis
    using t1 t2 t3 by (simp add: run_def)
qed



end
